theory Spec2Isabelle
  imports Complex_Main "HOL-Library.AList"
begin

section \<open>Python values\<close>

text \<open>
  A Python \<open>str\<close> is a sequence of Unicode code points and \<open>len\<close> counts code points,
  so a string is modelled as the list of its code points. \<open>lit\<close> embeds a literal of the
  source.
\<close>

type_synonym pystr = "nat list"

definition lit :: "string \<Rightarrow> pystr" where
  "lit s = map of_char s"

text \<open>
  A Python \<open>float\<close> is a finite number, an infinity or a NaN. A finite float is modelled
  by the real number it denotes and a float literal by its decimal value; the rounding of
  a division is not modelled.
\<close>

datatype pyfloat = FloatVal real | FloatInf | FloatNegInf | FloatNaN

text \<open>
  The values that reach the evaluators. A \<open>dict\<close> is the list of its items in insertion
  order; \<open>PObj\<close> stands for an object of any other class.
\<close>

datatype pyval =
    PNone
  | PBool bool
  | PInt int
  | PFloat pyfloat
  | PStr pystr
  | PList "pyval list"
  | PDict "(pyval \<times> pyval) list"
  | PObj nat

text \<open>
  Exceptions. Everything but \<open>KeyboardInterrupt\<close> and \<open>SystemExit\<close> derives from
  \<open>Exception\<close>; those two derive from \<open>BaseException\<close> only. \<open>OtherError\<close> stands for
  any other subclass of \<open>Exception\<close>, such as the network and API errors of a client
  library.
\<close>

datatype exn =
    ValueError pystr
  | ImportError pystr
  | AttributeError
  | IndexError
  | OtherError pystr
  | KeyboardInterrupt
  | SystemExit

fun is_Exception :: "exn \<Rightarrow> bool" where
  "is_Exception KeyboardInterrupt = False"
| "is_Exception SystemExit = False"
| "is_Exception _ = True"

text \<open>\<open>d.get(key, default)\<close> and \<open>d[key] = value\<close> on a dict.\<close>

definition dict_get :: "('k \<times> 'v) list \<Rightarrow> 'k \<Rightarrow> 'v \<Rightarrow> 'v" where
  "dict_get d k dflt = (case map_of d k of None \<Rightarrow> dflt | Some v \<Rightarrow> v)"

definition dict_set :: "('k \<times> 'v) list \<Rightarrow> 'k \<Rightarrow> 'v \<Rightarrow> ('k \<times> 'v) list" where
  "dict_set d k v = AList.update k v d"

section \<open>The process state\<close>

text \<open>
  The functions read and write \<open>os.environ\<close>, print lines, and call the MLflow client.
  A call into MLflow is recorded in the order it is made; the client itself is outside
  this program. \<open>set_experiment\<close> and \<open>set_tags\<close> are taken to return normally; what
  an \<open>autolog\<close> call raises is a parameter of \<open>setup_tracing\<close>.
\<close>

datatype mlflow_call =
    SetExperiment pystr
  | SetTags "(pystr \<times> pystr) list"
  | OpenaiAutolog
  | AnthropicAutolog
  | LangchainAutolog

record world =
  environ :: "pystr \<rightharpoonup> pystr"
  stdout :: "pystr list"
  mlflow_calls :: "mlflow_call list"

definition os_environ_get :: "world \<Rightarrow> pystr \<Rightarrow> pystr \<Rightarrow> pystr" where
  "os_environ_get w k dflt = (case environ w k of None \<Rightarrow> dflt | Some v \<Rightarrow> v)"

definition os_environ_set :: "pystr \<Rightarrow> pystr \<Rightarrow> world \<Rightarrow> world" where
  "os_environ_set k v w = w\<lparr>environ := (environ w)(k \<mapsto> v)\<rparr>"

definition print :: "pystr \<Rightarrow> world \<Rightarrow> world" where
  "print line w = w\<lparr>stdout := stdout w @ [line]\<rparr>"

definition mlflow :: "mlflow_call \<Rightarrow> world \<Rightarrow> world" where
  "mlflow c w = w\<lparr>mlflow_calls := mlflow_calls w @ [c]\<rparr>"

section \<open>experiment\_setup.py\<close>

definition setup_experiment :: "pystr \<Rightarrow> world \<Rightarrow> pystr \<times> world" where
  "setup_experiment base_name w =
     (let username = os_environ_get w (lit ''DOMINO_STARTING_USERNAME'') (lit ''unknown'');
          project = os_environ_get w (lit ''DOMINO_PROJECT_NAME'') (lit ''unknown'');
          experiment_name = base_name @ lit ''-'' @ project @ lit ''-'' @ username;
          w = mlflow (SetExperiment experiment_name) w;
          w = print (lit ''Experiment set: '' @ experiment_name) w
      in (experiment_name, w))"

definition log_domino_context :: "world \<Rightarrow> world" where
  "log_domino_context w =
     mlflow (SetTags
       [(lit ''domino.user'',
           os_environ_get w (lit ''DOMINO_STARTING_USERNAME'') (lit ''unknown'')),
        (lit ''domino.project'',
           os_environ_get w (lit ''DOMINO_PROJECT_NAME'') (lit ''unknown'')),
        (lit ''domino.run_id'',
           os_environ_get w (lit ''DOMINO_RUN_ID'') (lit ''unknown'')),
        (lit ''domino.hardware_tier'',
           os_environ_get w (lit ''DOMINO_HARDWARE_TIER_NAME'') (lit ''unknown''))]) w"

definition enable_large_artifact_upload :: "world \<Rightarrow> world" where
  "enable_large_artifact_upload w =
     (let w = os_environ_set (lit ''MLFLOW_ENABLE_PROXY_MULTIPART_UPLOAD'') (lit ''true'') w;
          w = os_environ_set (lit ''MLFLOW_MULTIPART_UPLOAD_CHUNK_SIZE'') (lit ''104857600'') w;
          w = print (lit ''Enabled multipart upload for large artifacts'') w
      in w)"

section \<open>Builtins of the interpreter\<close>

text \<open>
  \<open>str(x)\<close> returns \<open>x\<close> itself when \<open>x\<close> is a \<open>str\<close>; for every other object it is that
  object's own string form, and \<open>float(s)\<close> parses a string or raises \<open>ValueError\<close>.
  Neither is code of this program: both are parameters, \<open>obj_str\<close> for the string form
  of an object that is not a \<open>str\<close>, and \<open>str_to_float\<close> for the parser, with \<open>None\<close>
  when it raises.
\<close>

record builtins =
  obj_str :: "pyval \<Rightarrow> pystr"
  str_to_float :: "pystr \<Rightarrow> pyfloat option"

definition py_str :: "builtins \<Rightarrow> pyval \<Rightarrow> pystr" where
  "py_str B v = (case v of PStr s \<Rightarrow> s | _ \<Rightarrow> obj_str B v)"

definition py_len :: "pystr \<Rightarrow> pyval" where
  "py_len s = PInt (int (length s))"

text \<open>\<open>s.strip()\<close> removes the white space at both ends: the code points \<open>str.isspace\<close> accepts.\<close>

definition py_isspace :: "nat \<Rightarrow> bool" where
  "py_isspace c =
     ((9 \<le> c \<and> c \<le> 13) \<or> (28 \<le> c \<and> c \<le> 32) \<or> c = 133 \<or> c = 160 \<or> c = 5760
      \<or> (8192 \<le> c \<and> c \<le> 8202) \<or> c = 8232 \<or> c = 8233 \<or> c = 8239 \<or> c = 8287
      \<or> c = 12288)"

definition py_strip :: "pystr \<Rightarrow> pystr" where
  "py_strip s = rev (dropWhile py_isspace (rev (dropWhile py_isspace s)))"

text \<open>
  \<open>x < y\<close> on floats: false as soon as one side is a NaN. \<open>min(a, b)\<close> returns \<open>a\<close>
  unless \<open>b < a\<close>, and \<open>max(a, b)\<close> returns \<open>a\<close> unless \<open>b > a\<close>. The integers \<open>0\<close> and
  \<open>10\<close> of the source compare and divide as the floats of the same value.
\<close>

fun float_less :: "pyfloat \<Rightarrow> pyfloat \<Rightarrow> bool" where
  "float_less FloatNaN _ = False"
| "float_less _ FloatNaN = False"
| "float_less (FloatVal a) (FloatVal b) = (a < b)"
| "float_less FloatNegInf FloatNegInf = False"
| "float_less FloatNegInf _ = True"
| "float_less _ FloatNegInf = False"
| "float_less FloatInf _ = False"
| "float_less _ FloatInf = True"

definition py_min :: "pyfloat \<Rightarrow> pyfloat \<Rightarrow> pyfloat" where
  "py_min a b = (if float_less b a then b else a)"

definition py_max :: "pyfloat \<Rightarrow> pyfloat \<Rightarrow> pyfloat" where
  "py_max a b = (if float_less a b then b else a)"

fun div_by_10 :: "pyfloat \<Rightarrow> pyfloat" where
  "div_by_10 (FloatVal a) = FloatVal (a / 10)"
| "div_by_10 x = x"

section \<open>tracing\_setup.py\<close>

text \<open>
  \<open>mlflow.openai.autolog()\<close> and its two siblings reach into the package of their
  framework and raise when it cannot be loaded. \<open>autolog\<close> gives, for each of the three
  calls, the exception it raises, if it raises one. No call is guarded, so what it raises
  leaves \<open>setup_tracing\<close>, before the line is printed.
\<close>

definition setup_tracing :: "(mlflow_call \<Rightarrow> exn option) \<Rightarrow> pystr \<Rightarrow> world \<Rightarrow> exn + world" where
  "setup_tracing autolog framework w =
     (if framework = lit ''openai'' then
        (case autolog OpenaiAutolog of
           Some e \<Rightarrow> Inl e
         | None \<Rightarrow> Inr (print (lit ''Enabled OpenAI auto-tracing'') (mlflow OpenaiAutolog w)))
      else if framework = lit ''anthropic'' then
        (case autolog AnthropicAutolog of
           Some e \<Rightarrow> Inl e
         | None \<Rightarrow>
             Inr (print (lit ''Enabled Anthropic auto-tracing'') (mlflow AnthropicAutolog w)))
      else if framework = lit ''langchain'' then
        (case autolog LangchainAutolog of
           Some e \<Rightarrow> Inl e
         | None \<Rightarrow>
             Inr (print (lit ''Enabled LangChain auto-tracing'') (mlflow LangchainAutolog w)))
      else
        Inl (ValueError (lit ''Unknown framework: '' @ framework
               @ lit ''. Use 'openai', 'anthropic', or 'langchain'' @ lit [CHR 0x27])))"

text \<open>
  \<open>create_evaluator\<close> returns the closure \<open>evaluator(inputs, output)\<close>; \<open>metrics\<close> is
  \<open>None\<close> when the argument is left out. The scores are a dict from metric names to
  values.
\<close>

definition create_evaluator ::
  "builtins \<Rightarrow> pystr list option \<Rightarrow> pyval \<Rightarrow> pyval \<Rightarrow> (pystr \<times> pyval) list" where
  "create_evaluator B metrics =
     (let metrics = (case metrics of
                       None \<Rightarrow> [lit ''quality_score'', lit ''response_length'']
                     | Some ms \<Rightarrow> ms)
      in (\<lambda>inputs output.
        let scores = [];
            scores =
              (if lit ''response_length'' \<in> set metrics then
                 (case output of
                    PStr s \<Rightarrow> dict_set scores (lit ''response_length'') (py_len s)
                  | PDict d \<Rightarrow>
                      (let response =
                             dict_get d (PStr (lit ''response''))
                               (dict_get d (PStr (lit ''content'')) (PStr (py_str B output)))
                       in dict_set scores (lit ''response_length'') (py_len (py_str B response)))
                  | _ \<Rightarrow> dict_set scores (lit ''response_length'') (py_len (py_str B output)))
               else scores);
            scores =
              (if lit ''quality_score'' \<in> set metrics then
                 dict_set scores (lit ''quality_score'') (PFloat (FloatVal 0.8))
               else scores);
            scores =
              (if lit ''confidence'' \<in> set metrics then
                 (case output of
                    PDict d \<Rightarrow>
                      dict_set scores (lit ''confidence'')
                        (dict_get d (PStr (lit ''confidence'')) (PInt 0))
                  | _ \<Rightarrow> scores)
               else scores)
        in scores))"

text \<open>
  The OpenAI client is outside this program. \<open>import_OpenAI\<close> is the exception of
  \<open>from openai import OpenAI\<close>, if it raises one, and \<open>new_OpenAI\<close> that of \<open>OpenAI()\<close>.
  \<open>chat_completions_create\<close> is the call to the judge: it raises, or it returns a
  response, of which the model keeps \<open>choices[i].message.content\<close> for each choice
  (\<open>None\<close> where there is no content). A request is the model, the one message (its
  role and content) and the two sampling arguments.
\<close>

record chat_request =
  req_model :: pystr
  req_role :: pystr
  req_content :: pystr
  req_max_tokens :: nat
  req_temperature :: real

record openai_sdk =
  import_OpenAI :: "exn option"
  new_OpenAI :: "exn option"
  chat_completions_create :: "chat_request \<Rightarrow> exn + pystr option list"

text \<open>
  The body of the \<open>try\<close> statement: the call, the parse and the normalisation.
  \<open>choices[0]\<close> raises \<open>IndexError\<close> on an empty list and \<open>.strip()\<close> raises
  \<open>AttributeError\<close> on \<open>None\<close>; the \<open>ValueError\<close> of \<open>float\<close> carries the start of
  the builtin's message only.
\<close>

definition judge_try :: "builtins \<Rightarrow> openai_sdk \<Rightarrow> pystr \<Rightarrow> pystr \<Rightarrow> exn + pyfloat" where
  "judge_try B sdk judge_model judge_prompt =
     (case chat_completions_create sdk
             \<lparr>req_model = judge_model, req_role = lit ''user'', req_content = judge_prompt,
              req_max_tokens = 10, req_temperature = 0.1\<rparr> of
        Inl e \<Rightarrow> Inl e
      | Inr choices \<Rightarrow>
          (case choices of
             [] \<Rightarrow> Inl IndexError
           | None # _ \<Rightarrow> Inl AttributeError
           | Some content # _ \<Rightarrow>
               (case str_to_float B (py_strip content) of
                  None \<Rightarrow> Inl (ValueError (lit ''could not convert string to float''))
                | Some score \<Rightarrow>
                    Inr (div_by_10 (py_max (FloatVal 0) (py_min (FloatVal 10) score))))))"

text \<open>The query and the response the evaluator extracts, and the prompt it builds from them.\<close>

definition judge_prompt :: "builtins \<Rightarrow> (pyval \<times> pyval) list \<Rightarrow> pyval \<Rightarrow> pystr" where
  "judge_prompt B inputs output =
     (let query =
            dict_get inputs (PStr (lit ''query''))
              (dict_get inputs (PStr (lit ''question'')) (PStr (py_str B (PDict inputs))));
          response =
            (case output of
               PDict d \<Rightarrow>
                 dict_get d (PStr (lit ''response''))
                   (dict_get d (PStr (lit ''content'')) (PStr (py_str B output)))
             | _ \<Rightarrow> PStr (py_str B output))
      in lit ''Rate this response on a scale of 0-10.\<newline>\<newline>Question: ''
         @ py_str B query
         @ lit ''\<newline>Response: ''
         @ py_str B response
         @ lit ''\<newline>\<newline>Consider:\<newline>- Relevance: Does it answer the question?\<newline>- Completeness: Is the answer thorough?\<newline>- Clarity: Is it easy to understand?\<newline>\<newline>Respond with only a number 0-10.'')"

text \<open>
  \<open>create_llm_judge_evaluator\<close> returns the closure \<open>evaluator(inputs, output)\<close>, with
  \<open>inputs\<close> a dict. The import and the construction of the client come before the \<open>try\<close>
  statement, so what they raise leaves the evaluator; the handler of the \<open>try\<close> statement
  is \<open>except Exception\<close>.
\<close>

definition create_llm_judge_evaluator ::
  "builtins \<Rightarrow> openai_sdk \<Rightarrow> pystr \<Rightarrow> (pyval \<times> pyval) list \<Rightarrow> pyval
     \<Rightarrow> exn + (pystr \<times> pyval) list" where
  "create_llm_judge_evaluator B sdk judge_model =
     (\<lambda>inputs output.
        case import_OpenAI sdk of
          Some e \<Rightarrow> Inl e
        | None \<Rightarrow>
        (case new_OpenAI sdk of
          Some e \<Rightarrow> Inl e
        | None \<Rightarrow>
        (case judge_try B sdk judge_model (judge_prompt B inputs output) of
           Inr score \<Rightarrow>
             Inr [(lit ''llm_judge_score'', PFloat score),
                  (lit ''judge_model'', PStr judge_model)]
         | Inl e \<Rightarrow>
             if is_Exception e then
               Inr [(lit ''llm_judge_score'', PFloat (FloatVal 0.5)),
                    (lit ''judge_model'', PStr judge_model)]
             else Inl e)))"

text \<open>
  The \<open>for\<close> loop of \<open>get_aggregation_metrics\<close>: \<open>aggregation_body\<close> is one pass through
  its body, \<open>aggregation_loop\<close> runs it over the names left to visit.
\<close>

definition aggregation_body :: "pystr \<Rightarrow> (pystr \<times> pystr) list \<Rightarrow> (pystr \<times> pystr) list" where
  "aggregation_body name aggregations =
     (let aggregations = aggregations @ [(name, lit ''mean'')];
          aggregations =
            (if name \<in> set [lit ''response_length'', lit ''latency'']
             then aggregations @ [(name, lit ''max'')] else aggregations);
          aggregations =
            (if name \<in> set [lit ''quality_score'', lit ''confidence'']
             then aggregations @ [(name, lit ''min'')] else aggregations)
      in aggregations)"

fun aggregation_loop :: "pystr list \<Rightarrow> (pystr \<times> pystr) list \<Rightarrow> (pystr \<times> pystr) list" where
  "aggregation_loop [] aggregations = aggregations"
| "aggregation_loop (name # names) aggregations =
     aggregation_loop names (aggregation_body name aggregations)"

definition get_aggregation_metrics :: "pystr list option \<Rightarrow> (pystr \<times> pystr) list" where
  "get_aggregation_metrics metric_names =
     (let metric_names = (case metric_names of
                            None \<Rightarrow> [lit ''quality_score'', lit ''response_length'',
                                     lit ''confidence'']
                          | Some ns \<Rightarrow> ns)
      in aggregation_loop metric_names [])"

section \<open>Sample surroundings\<close>

text \<open>
  Concrete builtins and clients, for running the definitions. \<open>sample_builtins\<close> gives
  every object that is not a \<open>str\<close> the string form \<open>{...}\<close> and parses three strings;
  \<open>answering_sdk\<close> is a client whose judge answers with the given text;
  \<open>failing_sdk\<close> is a client whose call raises the given exception.
\<close>

definition sample_builtins :: builtins where
  "sample_builtins =
     \<lparr>obj_str = (\<lambda>v. lit ''{...}''),
      str_to_float = (\<lambda>s. if s = lit ''7'' then Some (FloatVal 7)
                          else if s = lit ''42'' then Some (FloatVal 42)
                          else if s = lit ''nan'' then Some FloatNaN
                          else None)\<rparr>"

definition answering_sdk :: "pystr \<Rightarrow> openai_sdk" where
  "answering_sdk answer =
     \<lparr>import_OpenAI = None, new_OpenAI = None,
      chat_completions_create = (\<lambda>request. Inr [Some answer])\<rparr>"

definition failing_sdk :: "exn \<Rightarrow> openai_sdk" where
  "failing_sdk e =
     \<lparr>import_OpenAI = None, new_OpenAI = None,
      chat_completions_create = (\<lambda>request. Inl e)\<rparr>"

text \<open>
  \<open>all_installed\<close> is an installation where every \<open>autolog\<close> call returns;
  \<open>anthropic_missing\<close> is one without the \<open>anthropic\<close> package, where that call raises
  \<open>ModuleNotFoundError\<close>, a kind of \<open>ImportError\<close>.
\<close>

definition all_installed :: "mlflow_call \<Rightarrow> exn option" where
  "all_installed c = None"

definition anthropic_missing :: "mlflow_call \<Rightarrow> exn option" where
  "anthropic_missing c =
     (if c = AnthropicAutolog
      then Some (ImportError (lit ''No module named 'anthropic'' @ lit [CHR 0x27]))
      else None)"

definition sample_world :: world where
  "sample_world =
     \<lparr>environ = [lit ''DOMINO_RUN_ID'' \<mapsto> lit ''r1''], stdout = [], mlflow_calls = []\<rparr>"

section \<open>Facts about literals and the state\<close>

lemma lit_eq_iff [simp]: "lit a = lit b \<longleftrightarrow> a = b"
proof -
  have "inj (of_char :: char \<Rightarrow> nat)"
    by (simp add: inj_on_def)
  then show ?thesis
    unfolding lit_def by (rule inj_map_eq_map)
qed

lemma environ_print [simp]: "environ (print l w) = environ w"
  by (simp add: print_def)

lemma environ_mlflow [simp]: "environ (mlflow c w) = environ w"
  by (simp add: mlflow_def)

lemma environ_set [simp]: "environ (os_environ_set k v w) = (environ w)(k \<mapsto> v)"
  by (simp add: os_environ_set_def)

lemma length_lit [simp]: "length (lit s) = length s"
  by (simp add: lit_def)

subsection \<open>Dicts\<close>

lemma keys_dict_set: "fst ` set (dict_set d k v) = insert k (fst ` set d)"
  by (simp add: dict_set_def dom_map_of_conv_image_fst [symmetric] update_conv')

lemma map_of_dict_set: "map_of (dict_set d k v) = (map_of d)(k \<mapsto> v)"
  by (simp add: dict_set_def update_conv')

subsection \<open>The evaluator with a given list of metrics\<close>

lemma create_evaluator_None:
  "create_evaluator B None =
     create_evaluator B (Some [lit ''quality_score'', lit ''response_length''])"
  by (simp add: create_evaluator_def)

lemma create_evaluator_Some:
  "create_evaluator B (Some ms) inputs out =
     (let scores = [];
          scores =
            (if lit ''response_length'' \<in> set ms then
               (case out of
                  PStr s \<Rightarrow> dict_set scores (lit ''response_length'') (py_len s)
                | PDict d \<Rightarrow>
                    (let response =
                           dict_get d (PStr (lit ''response''))
                             (dict_get d (PStr (lit ''content'')) (PStr (py_str B out)))
                     in dict_set scores (lit ''response_length'') (py_len (py_str B response)))
                | _ \<Rightarrow> dict_set scores (lit ''response_length'') (py_len (py_str B out)))
             else scores);
          scores =
            (if lit ''quality_score'' \<in> set ms then
               dict_set scores (lit ''quality_score'') (PFloat (FloatVal 0.8))
             else scores);
          scores =
            (if lit ''confidence'' \<in> set ms then
               (case out of
                  PDict d \<Rightarrow>
                    dict_set scores (lit ''confidence'')
                      (dict_get d (PStr (lit ''confidence'')) (PInt 0))
                | _ \<Rightarrow> scores)
             else scores)
      in scores)"
  by (simp add: create_evaluator_def)

lemma evaluator_keys_subset:
  "fst ` set (create_evaluator B (Some ms) inputs out)
     \<subseteq> {lit ''response_length'', lit ''quality_score'', lit ''confidence''} \<inter> set ms"
  by (cases out; cases "lit ''response_length'' \<in> set ms";
      cases "lit ''quality_score'' \<in> set ms"; cases "lit ''confidence'' \<in> set ms")
     (simp_all add: create_evaluator_Some Let_def keys_dict_set)

lemma evaluator_confidence_key:
  "lit ''confidence'' \<in> fst ` set (create_evaluator B (Some ms) inputs out)
     \<longleftrightarrow> lit ''confidence'' \<in> set ms \<and> (\<exists>d. out = PDict d)"
  by (cases out; cases "lit ''response_length'' \<in> set ms";
      cases "lit ''quality_score'' \<in> set ms"; cases "lit ''confidence'' \<in> set ms")
     (simp_all add: create_evaluator_Some Let_def keys_dict_set)

lemma evaluator_confidence_value:
  assumes "lit ''confidence'' \<in> set ms"
  shows "map_of (create_evaluator B (Some ms) inputs (PDict d)) (lit ''confidence'')
           = Some (case map_of d (PStr (lit ''confidence'')) of
                     None \<Rightarrow> PInt 0 | Some c \<Rightarrow> c)"
  using assms
  by (simp add: create_evaluator_Some Let_def map_of_dict_set dict_get_def)

subsection \<open>The normalised score\<close>

lemma normalised_score_finite:
  "div_by_10 (py_max (FloatVal 0) (py_min (FloatVal 10) (FloatVal x)))
     = FloatVal (max 0 (min 10 x) / 10)"
  by (simp add: py_min_def py_max_def max_def min_def)

lemma normalised_score_range:
  "\<exists>r. div_by_10 (py_max (FloatVal 0) (py_min (FloatVal 10) x)) = FloatVal r
       \<and> 0 \<le> r \<and> r \<le> 1"
proof (cases x)
  case (FloatVal a)
  have "0 \<le> max 0 (min 10 a) / 10" and "max 0 (min 10 a) / 10 \<le> 1"
    by simp_all
  with FloatVal show ?thesis
    by (simp only: normalised_score_finite) blast
qed (simp_all add: py_min_def py_max_def)

lemma judge_try_range:
  assumes "judge_try B sdk judge_model prompt = Inr x"
  shows "\<exists>r. x = FloatVal r \<and> 0 \<le> r \<and> r \<le> 1"
proof -
  from assms obtain score where
    "x = div_by_10 (py_max (FloatVal 0) (py_min (FloatVal 10) score))"
    by (auto simp: judge_try_def split: sum.splits list.splits option.splits)
  with normalised_score_range [of score] show ?thesis
    by auto
qed

text \<open>
  Once the call has returned, whatever goes wrong in reading and parsing the response is
  an \<open>IndexError\<close>, an \<open>AttributeError\<close> or a \<open>ValueError\<close>, which the handler catches.
\<close>

lemma judge_try_parse_failure:
  assumes "chat_completions_create sdk
             \<lparr>req_model = judge_model, req_role = lit ''user'', req_content = prompt,
              req_max_tokens = 10, req_temperature = 0.1\<rparr> = Inr choices"
    and "judge_try B sdk judge_model prompt = Inl e"
  shows "is_Exception e"
  using assms
  by (auto simp: judge_try_def split: list.splits option.splits)

section \<open>experiment\_setup.py: names, tags and the upload switches\<close>

text \<open>
  C1. Whatever the base name and the environment, the name \<open>setup_experiment\<close> returns is
  the base name, a hyphen, the project, a hyphen and the user name, where the project is
  the value of \<open>DOMINO_PROJECT_NAME\<close> and the user name that of
  \<open>DOMINO_STARTING_USERNAME\<close>, each replaced by \<open>unknown\<close> when the variable is unset.
\<close>

theorem setup_experiment_name:
  "fst (setup_experiment base_name w) =
     base_name @ lit ''-''
       @ (case environ w (lit ''DOMINO_PROJECT_NAME'') of
            None \<Rightarrow> lit ''unknown'' | Some project \<Rightarrow> project)
       @ lit ''-''
       @ (case environ w (lit ''DOMINO_STARTING_USERNAME'') of
            None \<Rightarrow> lit ''unknown'' | Some username \<Rightarrow> username)"
  by (simp add: setup_experiment_def os_environ_get_def Let_def)

text \<open>
  C2. \<open>log_domino_context\<close> makes one call, \<open>set_tags\<close>, and the mapping it sends has
  exactly the keys \<open>domino.user\<close>, \<open>domino.project\<close>, \<open>domino.run_id\<close> and
  \<open>domino.hardware_tier\<close>, each once; the value of each is the value of its environment
  variable, or \<open>unknown\<close> when that variable is unset.
\<close>

theorem log_domino_context_tags:
  "\<exists>tags.
     mlflow_calls (log_domino_context w) = mlflow_calls w @ [SetTags tags]
     \<and> fst ` set tags =
         {lit ''domino.user'', lit ''domino.project'', lit ''domino.run_id'',
          lit ''domino.hardware_tier''}
     \<and> distinct (map fst tags)
     \<and> map_of tags (lit ''domino.user'') =
         Some (case environ w (lit ''DOMINO_STARTING_USERNAME'') of
                 None \<Rightarrow> lit ''unknown'' | Some v \<Rightarrow> v)
     \<and> map_of tags (lit ''domino.project'') =
         Some (case environ w (lit ''DOMINO_PROJECT_NAME'') of
                 None \<Rightarrow> lit ''unknown'' | Some v \<Rightarrow> v)
     \<and> map_of tags (lit ''domino.run_id'') =
         Some (case environ w (lit ''DOMINO_RUN_ID'') of
                 None \<Rightarrow> lit ''unknown'' | Some v \<Rightarrow> v)
     \<and> map_of tags (lit ''domino.hardware_tier'') =
         Some (case environ w (lit ''DOMINO_HARDWARE_TIER_NAME'') of
                 None \<Rightarrow> lit ''unknown'' | Some v \<Rightarrow> v)"
  by (simp add: log_domino_context_def mlflow_def os_environ_get_def)

text \<open>
  C8. After \<open>enable_large_artifact_upload\<close> the variable
  \<open>MLFLOW_ENABLE_PROXY_MULTIPART_UPLOAD\<close> is \<open>true\<close>, the variable
  \<open>MLFLOW_MULTIPART_UPLOAD_CHUNK_SIZE\<close> is \<open>104857600\<close>, and every other variable is
  as it was before, set or unset.
\<close>

theorem enable_large_artifact_upload_environ:
  "environ (enable_large_artifact_upload w) (lit ''MLFLOW_ENABLE_PROXY_MULTIPART_UPLOAD'')
     = Some (lit ''true'')
   \<and> environ (enable_large_artifact_upload w) (lit ''MLFLOW_MULTIPART_UPLOAD_CHUNK_SIZE'')
     = Some (lit ''104857600'')
   \<and> (\<forall>k. k \<noteq> lit ''MLFLOW_ENABLE_PROXY_MULTIPART_UPLOAD''
          \<and> k \<noteq> lit ''MLFLOW_MULTIPART_UPLOAD_CHUNK_SIZE''
        \<longrightarrow> environ (enable_large_artifact_upload w) k = environ w k)"
  by (simp add: enable_large_artifact_upload_def Let_def)

theorem enable_large_artifact_upload_environ_witness:
  "environ (enable_large_artifact_upload sample_world)
     (lit ''MLFLOW_ENABLE_PROXY_MULTIPART_UPLOAD'') = Some (lit ''true'')
   \<and> environ (enable_large_artifact_upload sample_world)
     (lit ''MLFLOW_MULTIPART_UPLOAD_CHUNK_SIZE'') = Some (lit ''104857600'')
   \<and> environ (enable_large_artifact_upload sample_world)
     (lit ''DOMINO_RUN_ID'') = Some (lit ''r1'')
   \<and> environ (enable_large_artifact_upload sample_world)
     (lit ''HOME'') = None"
  using enable_large_artifact_upload_environ
    [of sample_world]
  by (simp add: sample_world_def)

section \<open>tracing\_setup.py: frameworks, evaluators and aggregations\<close>

text \<open>
  C3, as the code has it. \<open>setup_tracing\<close> raises \<open>e\<close> in exactly two situations.
  Either its framework is none of \<open>openai\<close>, \<open>anthropic\<close> and \<open>langchain\<close>, and \<open>e\<close> is
  the \<open>ValueError\<close> whose message is \<open>Unknown framework:\<close>, the framework given, and
  the three accepted names; so for an unsupported name it never returns without doing
  anything. Or the framework is one of the three and \<open>e\<close> is what the \<open>autolog\<close> call
  of that framework raises. Where every \<open>autolog\<close> call returns, it raises exactly when
  the framework is none of the three.
\<close>

theorem setup_tracing_raises:
  "(setup_tracing autolog framework w = Inl e \<longleftrightarrow>
      (framework \<notin> {lit ''openai'', lit ''anthropic'', lit ''langchain''}
         \<and> e = ValueError (lit ''Unknown framework: '' @ framework
                   @ lit ''. Use 'openai', 'anthropic', or 'langchain'' @ lit [CHR 0x27]))
      \<or> (framework = lit ''openai'' \<and> autolog OpenaiAutolog = Some e)
      \<or> (framework = lit ''anthropic'' \<and> autolog AnthropicAutolog = Some e)
      \<or> (framework = lit ''langchain'' \<and> autolog LangchainAutolog = Some e))
   \<and> ((\<forall>c. autolog c = None) \<longrightarrow>
        ((\<exists>e'. setup_tracing autolog framework w = Inl e') \<longleftrightarrow>
           framework \<notin> {lit ''openai'', lit ''anthropic'', lit ''langchain''}))"
proof (intro conjI impI)
  show "setup_tracing autolog framework w = Inl e \<longleftrightarrow>
      (framework \<notin> {lit ''openai'', lit ''anthropic'', lit ''langchain''}
         \<and> e = ValueError (lit ''Unknown framework: '' @ framework
                   @ lit ''. Use 'openai', 'anthropic', or 'langchain'' @ lit [CHR 0x27]))
      \<or> (framework = lit ''openai'' \<and> autolog OpenaiAutolog = Some e)
      \<or> (framework = lit ''anthropic'' \<and> autolog AnthropicAutolog = Some e)
      \<or> (framework = lit ''langchain'' \<and> autolog LangchainAutolog = Some e)"
    by (auto simp: setup_tracing_def split: option.splits)
next
  assume "\<forall>c. autolog c = None"
  then show "(\<exists>e'. setup_tracing autolog framework w = Inl e') \<longleftrightarrow>
           framework \<notin> {lit ''openai'', lit ''anthropic'', lit ''langchain''}"
    by (simp add: setup_tracing_def)
qed

text \<open>
  With every package installed, the framework \<open>tensorflow\<close> is refused with that message
  and \<open>langchain\<close> is accepted.
\<close>

theorem setup_tracing_raises_witness:
  "setup_tracing all_installed (lit ''tensorflow'') sample_world =
     Inl (ValueError (lit ''Unknown framework: tensorflow. Use 'openai', 'anthropic', or 'langchain'' @ lit [CHR 0x27]))
   \<and> (\<exists>w'. setup_tracing all_installed (lit ''langchain'') sample_world = Inr w')"
proof -
  have "lit ''tensorflow'' \<notin> {lit ''openai'', lit ''anthropic'', lit ''langchain''}"
    by simp
  with setup_tracing_raises [of all_installed "lit ''tensorflow''" sample_world
      "ValueError (lit ''Unknown framework: '' @ lit ''tensorflow''
             @ lit ''. Use 'openai', 'anthropic', or 'langchain'' @ lit [CHR 0x27])"]
  have raised: "setup_tracing all_installed (lit ''tensorflow'') sample_world =
      Inl (ValueError (lit ''Unknown framework: '' @ lit ''tensorflow''
             @ lit ''. Use 'openai', 'anthropic', or 'langchain'' @ lit [CHR 0x27]))"
    by blast
  have "\<forall>c. all_installed c = None"
    by (simp add: all_installed_def)
  with setup_tracing_raises [of all_installed "lit ''langchain''" sample_world]
  have "\<not> (\<exists>e'. setup_tracing all_installed (lit ''langchain'') sample_world = Inl e')"
    by simp
  then have returned: "\<exists>w'. setup_tracing all_installed (lit ''langchain'') sample_world = Inr w'"
    by (cases "setup_tracing all_installed (lit ''langchain'') sample_world") auto
  from raised returned show ?thesis
    by (simp add: lit_def)
qed

text \<open>
  Without the \<open>anthropic\<close> package, the accepted framework \<open>anthropic\<close> raises all the
  same: the error of the \<open>autolog\<close> call.
\<close>

theorem setup_tracing_accepted_raises:
  "lit ''anthropic'' \<in> {lit ''openai'', lit ''anthropic'', lit ''langchain''}
   \<and> setup_tracing anthropic_missing (lit ''anthropic'') sample_world =
       Inl (ImportError (lit ''No module named 'anthropic'' @ lit [CHR 0x27]))"
  by (simp add: setup_tracing_def anthropic_missing_def)

text \<open>
  C4. With the default metrics, the evaluator applied to any inputs and to a string \<open>s\<close>
  returns a mapping in which \<open>response_length\<close> is the number of characters of \<open>s\<close>
  and \<open>quality_score\<close> is \<open>0.8\<close>.
\<close>

theorem default_evaluator_str:
  "map_of (create_evaluator B None inputs (PStr s)) (lit ''response_length'')
     = Some (PInt (int (length s)))
   \<and> map_of (create_evaluator B None inputs (PStr s)) (lit ''quality_score'')
     = Some (PFloat (FloatVal 0.8))"
  by (simp add: create_evaluator_def dict_set_def py_len_def)

text \<open>
  C5. With the default metrics, when the output is a dict that has the key \<open>response\<close>,
  \<open>response_length\<close> is the length of the string form of the value stored under that
  key, whatever the string form of the whole dict is.
\<close>

theorem default_evaluator_response:
  "map_of d (PStr (lit ''response'')) = Some v \<Longrightarrow>
   map_of (create_evaluator B None inputs (PDict d)) (lit ''response_length'')
     = Some (PInt (int (length (py_str B v))))"
  by (simp add: create_evaluator_def dict_set_def dict_get_def py_len_def)

text \<open>
  A dict whose \<open>response\<close> is \<open>Hi\<close> is measured as 2, although the string form the
  sample builtins give the whole dict has 5 characters.
\<close>

theorem default_evaluator_response_witness:
  "map_of (create_evaluator sample_builtins None PNone
             (PDict [(PStr (lit ''model''), PStr (lit ''gpt-4o-mini'')),
                     (PStr (lit ''response''), PStr (lit ''Hi''))]))
          (lit ''response_length'') = Some (PInt 2)
   \<and> length (py_str sample_builtins
         (PDict [(PStr (lit ''model''), PStr (lit ''gpt-4o-mini'')),
                 (PStr (lit ''response''), PStr (lit ''Hi''))])) = 5"
  using default_evaluator_response
    [of "[(PStr (lit ''model''), PStr (lit ''gpt-4o-mini'')),
          (PStr (lit ''response''), PStr (lit ''Hi''))]"
        "PStr (lit ''Hi'')" sample_builtins PNone]
  by (simp add: py_str_def sample_builtins_def)

text \<open>
  C6. For the list \<open>quality_score\<close>, \<open>response_length\<close> the aggregations are, in this
  order, the mean and the minimum of \<open>quality_score\<close>, then the mean and the maximum of
  \<open>response_length\<close>, and nothing else.
\<close>

theorem get_aggregation_metrics_pairs:
  "get_aggregation_metrics (Some [lit ''quality_score'', lit ''response_length'']) =
     [(lit ''quality_score'', lit ''mean''), (lit ''quality_score'', lit ''min''),
      (lit ''response_length'', lit ''mean''), (lit ''response_length'', lit ''max'')]"
  by (simp add: get_aggregation_metrics_def aggregation_body_def)

text \<open>
  C7, as the code has it. Let the import and the client be in place, and let the body of
  the \<open>try\<close> statement (the call to the judge, the reading of its answer, the parse)
  raise \<open>e\<close>. If \<open>e\<close> is an instance of \<open>Exception\<close>, the evaluator returns, with
  \<open>llm_judge_score\<close> equal to \<open>0.5\<close>. If \<open>e\<close> derives from \<open>BaseException\<close> only, the
  handler does not catch it and it leaves the evaluator.
\<close>

theorem judge_failure_neutral:
  assumes "import_OpenAI sdk = None" and "new_OpenAI sdk = None"
    and "judge_try B sdk judge_model (judge_prompt B inputs output) = Inl e"
  shows "(is_Exception e \<longrightarrow>
            create_llm_judge_evaluator B sdk judge_model inputs output =
              Inr [(lit ''llm_judge_score'', PFloat (FloatVal 0.5)),
                   (lit ''judge_model'', PStr judge_model)])
         \<and> (\<not> is_Exception e \<longrightarrow>
            create_llm_judge_evaluator B sdk judge_model inputs output = Inl e)"
  using assms by (simp add: create_llm_judge_evaluator_def)

text \<open>A call that fails with a network error gives the score \<open>0.5\<close>.\<close>

theorem judge_failure_neutral_witness:
  "create_llm_judge_evaluator sample_builtins
       (failing_sdk (OtherError (lit ''connection refused''))) (lit ''gpt-4o-mini'')
       [(PStr (lit ''query''), PStr (lit ''What is machine learning?''))]
       (PStr (lit ''A field of study.''))
     = Inr [(lit ''llm_judge_score'', PFloat (FloatVal 0.5)),
            (lit ''judge_model'', PStr (lit ''gpt-4o-mini''))]"
proof -
  have imp: "import_OpenAI (failing_sdk (OtherError (lit ''connection refused''))) = None"
    and new: "new_OpenAI (failing_sdk (OtherError (lit ''connection refused''))) = None"
    by (simp_all add: failing_sdk_def)
  have failed:
    "judge_try sample_builtins (failing_sdk (OtherError (lit ''connection refused'')))
       (lit ''gpt-4o-mini'')
       (judge_prompt sample_builtins
          [(PStr (lit ''query''), PStr (lit ''What is machine learning?''))]
          (PStr (lit ''A field of study.'')))
     = Inl (OtherError (lit ''connection refused''))"
    by (simp add: judge_try_def failing_sdk_def)
  from judge_failure_neutral [OF imp new failed] show ?thesis
    by simp
qed

text \<open>
  A call that ends with \<open>KeyboardInterrupt\<close>: the evaluator returns no score, the
  exception leaves it.
\<close>

theorem judge_interrupt_propagates:
  "create_llm_judge_evaluator sample_builtins (failing_sdk KeyboardInterrupt)
       (lit ''gpt-4o-mini'')
       [(PStr (lit ''query''), PStr (lit ''What is machine learning?''))]
       (PStr (lit ''A field of study.''))
     = Inl KeyboardInterrupt"
  by (simp add: create_llm_judge_evaluator_def judge_try_def failing_sdk_def)

text \<open>
  C9. Whenever the evaluator of \<open>create_llm_judge_evaluator\<close> returns a mapping, its
  \<open>llm_judge_score\<close> is a finite number between 0 and 1; it does return as soon as the
  import and the client are in place and the call raises nothing outside \<open>Exception\<close>.
  When the judge's answer parses to a finite number \<open>x\<close>, the score is \<open>x\<close> clamped to
  the interval from 0 to 10, divided by 10.
\<close>

theorem judge_score_in_unit_interval:
  "(import_OpenAI sdk = None \<and> new_OpenAI sdk = None
      \<and> (\<forall>e. judge_try B sdk judge_model (judge_prompt B inputs output) = Inl e
             \<longrightarrow> is_Exception e)
    \<longrightarrow> (\<exists>scores. create_llm_judge_evaluator B sdk judge_model inputs output = Inr scores))
   \<and> (\<forall>scores. create_llm_judge_evaluator B sdk judge_model inputs output = Inr scores
        \<longrightarrow> (\<exists>r. map_of scores (lit ''llm_judge_score'') = Some (PFloat (FloatVal r))
                 \<and> 0 \<le> r \<and> r \<le> 1))
   \<and> (\<forall>content rest x.
         import_OpenAI sdk = None \<and> new_OpenAI sdk = None
         \<and> chat_completions_create sdk
              \<lparr>req_model = judge_model, req_role = lit ''user'',
               req_content = judge_prompt B inputs output,
               req_max_tokens = 10, req_temperature = 0.1\<rparr> = Inr (Some content # rest)
         \<and> str_to_float B (py_strip content) = Some (FloatVal x)
        \<longrightarrow> create_llm_judge_evaluator B sdk judge_model inputs output =
              Inr [(lit ''llm_judge_score'', PFloat (FloatVal (max 0 (min 10 x) / 10))),
                   (lit ''judge_model'', PStr judge_model)])"
proof (intro conjI allI impI)
  assume "import_OpenAI sdk = None \<and> new_OpenAI sdk = None
      \<and> (\<forall>e. judge_try B sdk judge_model (judge_prompt B inputs output) = Inl e
             \<longrightarrow> is_Exception e)"
  then show "\<exists>scores. create_llm_judge_evaluator B sdk judge_model inputs output = Inr scores"
    by (cases "judge_try B sdk judge_model (judge_prompt B inputs output)")
       (simp_all add: create_llm_judge_evaluator_def)
next
  fix scores
  assume ret: "create_llm_judge_evaluator B sdk judge_model inputs output = Inr scores"
  show "\<exists>r. map_of scores (lit ''llm_judge_score'') = Some (PFloat (FloatVal r))
                 \<and> 0 \<le> r \<and> r \<le> 1"
  proof (cases "judge_try B sdk judge_model (judge_prompt B inputs output)")
    case (Inl e)
    with ret have "scores = [(lit ''llm_judge_score'', PFloat (FloatVal 0.5)),
                             (lit ''judge_model'', PStr judge_model)]"
      by (auto simp: create_llm_judge_evaluator_def split: option.splits if_splits)
    then show ?thesis by (intro exI [of _ "0.5"]) simp
  next
    case (Inr score)
    with ret have "scores = [(lit ''llm_judge_score'', PFloat score),
                             (lit ''judge_model'', PStr judge_model)]"
      by (auto simp: create_llm_judge_evaluator_def split: option.splits)
    with judge_try_range [OF Inr] show ?thesis by auto
  qed
next
  fix content rest x
  assume "import_OpenAI sdk = None \<and> new_OpenAI sdk = None
         \<and> chat_completions_create sdk
              \<lparr>req_model = judge_model, req_role = lit ''user'',
               req_content = judge_prompt B inputs output,
               req_max_tokens = 10, req_temperature = 0.1\<rparr> = Inr (Some content # rest)
         \<and> str_to_float B (py_strip content) = Some (FloatVal x)"
  then show "create_llm_judge_evaluator B sdk judge_model inputs output =
              Inr [(lit ''llm_judge_score'', PFloat (FloatVal (max 0 (min 10 x) / 10))),
                   (lit ''judge_model'', PStr judge_model)]"
    by (simp add: create_llm_judge_evaluator_def judge_try_def normalised_score_finite)
qed

text \<open>
  The answers \<open>7\<close> (with white space around it), \<open>42\<close>, \<open>nan\<close> and \<open>seven\<close> give the
  scores 0.7, 1, 1 and 0.5.
\<close>

theorem judge_score_in_unit_interval_witness:
  "create_llm_judge_evaluator sample_builtins (answering_sdk (lit '' 7\<newline>''))
       (lit ''gpt-4o-mini'') [] (PStr (lit ''A field of study.''))
     = Inr [(lit ''llm_judge_score'', PFloat (FloatVal 0.7)),
            (lit ''judge_model'', PStr (lit ''gpt-4o-mini''))]
   \<and> create_llm_judge_evaluator sample_builtins (answering_sdk (lit ''42''))
       (lit ''gpt-4o-mini'') [] (PStr (lit ''A field of study.''))
     = Inr [(lit ''llm_judge_score'', PFloat (FloatVal 1)),
            (lit ''judge_model'', PStr (lit ''gpt-4o-mini''))]
   \<and> create_llm_judge_evaluator sample_builtins (answering_sdk (lit ''nan''))
       (lit ''gpt-4o-mini'') [] (PStr (lit ''A field of study.''))
     = Inr [(lit ''llm_judge_score'', PFloat (FloatVal 1)),
            (lit ''judge_model'', PStr (lit ''gpt-4o-mini''))]
   \<and> create_llm_judge_evaluator sample_builtins (answering_sdk (lit ''seven''))
       (lit ''gpt-4o-mini'') [] (PStr (lit ''A field of study.''))
     = Inr [(lit ''llm_judge_score'', PFloat (FloatVal 0.5)),
            (lit ''judge_model'', PStr (lit ''gpt-4o-mini''))]"
  using judge_score_in_unit_interval
    [of "answering_sdk (lit '' 7\<newline>'')" sample_builtins "lit ''gpt-4o-mini''" "[]"
        "PStr (lit ''A field of study.'')"]
  by (simp add: create_llm_judge_evaluator_def judge_try_def answering_sdk_def
      sample_builtins_def py_strip_def py_isspace_def py_min_def py_max_def lit_def)

text \<open>
  C10. Let \<open>requested\<close> be the metrics list given to \<open>create_evaluator\<close>, or the default
  list when none is given. Every key of the mapping the evaluator returns is one of
  \<open>response_length\<close>, \<open>quality_score\<close> and \<open>confidence\<close>, and is in \<open>requested\<close>. The
  key \<open>confidence\<close> is there exactly when it is requested and the output is a dict; its
  value is then the dict's \<open>confidence\<close>, or \<open>0\<close> when the dict has none.
\<close>

theorem evaluator_returns_requested_keys:
  assumes "requested = (case metrics of
                          None \<Rightarrow> [lit ''quality_score'', lit ''response_length'']
                        | Some ms \<Rightarrow> ms)"
  shows "fst ` set (create_evaluator B metrics inputs output)
           \<subseteq> {lit ''response_length'', lit ''quality_score'', lit ''confidence''}
               \<inter> set requested
         \<and> (lit ''confidence'' \<in> fst ` set (create_evaluator B metrics inputs output)
              \<longleftrightarrow> lit ''confidence'' \<in> set requested \<and> (\<exists>d. output = PDict d))
         \<and> (\<forall>d. output = PDict d \<and> lit ''confidence'' \<in> set requested \<longrightarrow>
               map_of (create_evaluator B metrics inputs output) (lit ''confidence'')
                 = Some (case map_of d (PStr (lit ''confidence'')) of
                           None \<Rightarrow> PInt 0 | Some c \<Rightarrow> c))"
proof -
  have "create_evaluator B metrics = create_evaluator B (Some requested)"
    using assms by (cases metrics) (simp_all add: create_evaluator_None)
  then show ?thesis
    using evaluator_keys_subset [of B requested inputs "output"]
      evaluator_confidence_key [of B requested inputs "output"]
      evaluator_confidence_value [of requested B inputs]
    by simp
qed

text \<open>
  With \<open>confidence\<close>, \<open>latency\<close> and \<open>quality_score\<close> requested, a string output gets
  \<open>quality_score\<close> only, and a dict without a confidence gets \<open>confidence\<close> 0 as well.
\<close>

theorem evaluator_returns_requested_keys_witness:
  "fst ` set (create_evaluator sample_builtins
                (Some [lit ''confidence'', lit ''latency'', lit ''quality_score''])
                PNone (PStr (lit ''hello'')))
     = {lit ''quality_score''}
   \<and> create_evaluator sample_builtins
                (Some [lit ''confidence'', lit ''latency'', lit ''quality_score''])
                PNone (PDict [(PStr (lit ''response''), PStr (lit ''hello''))])
     = [(lit ''quality_score'', PFloat (FloatVal 0.8)), (lit ''confidence'', PInt 0)]"
  using evaluator_returns_requested_keys
    [of "[lit ''confidence'', lit ''latency'', lit ''quality_score'']"
        "Some [lit ''confidence'', lit ''latency'', lit ''quality_score'']"
        sample_builtins PNone "PStr (lit ''hello'')"]
  by (simp add: create_evaluator_def dict_set_def dict_get_def)

end
